theory Spec2Isabelle
  imports Main "HOL-Library.Sublist"
begin

section \<open>JavaScript values\<close>

text \<open>
  Configuration values are JavaScript values: they may be absent (\<open>undefined\<close>),
  explicitly \<open>null\<close>, booleans, strings or objects. An object is an association list
  from property names to values. \<open>v == null\<close> holds for \<open>null\<close> and \<open>undefined\<close>;
  \<open>a || b\<close> is \<open>a\<close> when \<open>a\<close> is truthy and \<open>b\<close> otherwise.
\<close>

datatype jsval =
    JUndefined
  | JNull
  | JBool bool
  | JStr string
  | JObj "(string \<times> jsval) list"

fun isNullish :: "jsval \<Rightarrow> bool" where
  "isNullish JUndefined = True"
| "isNullish JNull = True"
| "isNullish _ = False"

fun truthy :: "jsval \<Rightarrow> bool" where
  "truthy JUndefined = False"
| "truthy JNull = False"
| "truthy (JBool b) = b"
| "truthy (JStr s) = (s \<noteq> [])"
| "truthy (JObj kvs) = True"

definition js_or :: "jsval \<Rightarrow> jsval \<Rightarrow> jsval" where
  "js_or a b = (if truthy a then a else b)"

text \<open>Property access \<open>obj[name]\<close>: a missing property reads as \<open>undefined\<close>.\<close>

definition getProp :: "(string \<times> jsval) list \<Rightarrow> string \<Rightarrow> jsval" where
  "getProp obj name = (case map_of obj name of None \<Rightarrow> JUndefined | Some v \<Rightarrow> v)"

section \<open>Platforms, architectures, application info\<close>

text \<open>
  \<open>Platform\<close>, \<open>Arch\<close> and \<open>AppInfo\<close> are declared outside the file under study; only
  what \<open>platformPackager.ts\<close> reads of them is modelled. \<open>Arch[arch]\<close> is the name
  of the enum member.
\<close>

datatype Platform = MAC | LINUX | WINDOWS

fun buildConfigurationKey :: "Platform \<Rightarrow> string" where
  "buildConfigurationKey MAC = ''mac''"
| "buildConfigurationKey LINUX = ''linux''"
| "buildConfigurationKey WINDOWS = ''win''"

datatype Arch = ia32 | x64 | armv7l | arm64

fun Arch_name :: "Arch \<Rightarrow> string" where
  "Arch_name ia32 = ''ia32''"
| "Arch_name x64 = ''x64''"
| "Arch_name armv7l = ''armv7l''"
| "Arch_name arm64 = ''arm64''"

record AppInfo =
  name :: string
  productName :: string
  productFilename :: string
  version :: string

section \<open>Errors\<close>

datatype error =
    DeprecatedOption string
  | OutputDirMissing string
  | OutputDirNotDirectory string
  | FileDoesNotExist string string
  | FileIsNotFile string string
  | MacroNotDefined string
  | NotInArchive string string
  | ExternalFailure string

section \<open>Compression level\<close>

text \<open>
  \<open>get compression()\<close>: the platform-specific option explicitly set to \<open>null\<close> asks
  for the default instead of the value of the parent configuration.
\<close>

definition compression :: "jsval \<Rightarrow> jsval \<Rightarrow> jsval" where
  "compression platformCompression configCompression =
     (if platformCompression = JNull then JStr ''normal''
      else js_or (js_or platformCompression configCompression) (JStr ''normal''))"

section \<open>Artifact names\<close>

text \<open>
  The macro expander \<open>doExpandMacro(pattern, arch, appInfo, extra, isProductNameSanitized)\<close>
  lives in another module; the functions below take it as a parameter. It may reject a
  pattern, so it returns an error or the expanded string.
\<close>

type_synonym macroExpander =
  "string \<Rightarrow> string option \<Rightarrow> AppInfo \<Rightarrow> (string \<rightharpoonup> string) \<Rightarrow> bool \<Rightarrow> error + string"

text \<open>\<open>expandMacro\<close>: the platform key is passed as \<open>os\<close>; \<open>extra\<close> is spread over it.\<close>

definition expandMacro ::
  "macroExpander \<Rightarrow> Platform \<Rightarrow> AppInfo \<Rightarrow> string \<Rightarrow> string option \<Rightarrow> (string \<rightharpoonup> string) \<Rightarrow> bool
     \<Rightarrow> error + string" where
  "expandMacro doExpandMacro platform appInfo pattern arch extra isProductNameSanitized =
     doExpandMacro pattern arch appInfo
       ([''os'' \<mapsto> buildConfigurationKey platform] ++ extra) isProductNameSanitized"

text \<open>
  The local variable \<open>archName\<close> of \<open>computeArtifactName\<close>: the enum name, replaced
  by a format-specific alias for x64 and ia32.
\<close>

definition archNameFor :: "string \<Rightarrow> Arch option \<Rightarrow> string option" where
  "archNameFor ext arch =
     (let archName = map_option Arch_name arch in
      if arch = Some x64 then
        (if ext = ''AppImage'' \<or> ext = ''rpm'' then Some ''x86_64''
         else if ext = ''deb'' \<or> ext = ''snap'' then Some ''amd64''
         else archName)
      else if arch = Some ia32 then
        (if ext = ''deb'' \<or> ext = ''AppImage'' \<or> ext = ''snap'' then Some ''i386''
         else if ext = ''pacman'' \<or> ext = ''rpm'' then Some ''i686''
         else archName)
      else archName)"

definition computeArtifactName ::
  "macroExpander \<Rightarrow> Platform \<Rightarrow> AppInfo \<Rightarrow> string \<Rightarrow> string \<Rightarrow> Arch option \<Rightarrow> error + string" where
  "computeArtifactName doExpandMacro platform appInfo pattern ext arch =
     expandMacro doExpandMacro platform appInfo pattern
       (if platform = MAC then None else archNameFor ext arch)
       [''ext'' \<mapsto> ext] True"

text \<open>
  \<open>isSafeGithubName\<close>: the regular expression \<open>/^[0-9A-Za-z._-]+$/\<close>. The codes 48 to 57
  are the digits, 65 to 90 the capital letters, 97 to 122 the small letters.
\<close>

definition isSafeChar :: "char \<Rightarrow> bool" where
  "isSafeChar c =
     (let n = (of_char c :: nat) in
      (48 \<le> n \<and> n \<le> 57) \<or> (65 \<le> n \<and> n \<le> 90) \<or> (97 \<le> n \<and> n \<le> 122)
      \<or> c = CHR ''.'' \<or> c = CHR ''_'' \<or> c = CHR ''-'')"

definition isSafeGithubName :: "string \<Rightarrow> bool" where
  "isSafeGithubName s = (s \<noteq> [] \<and> list_all isSafeChar s)"

text \<open>
  \<open>computeSafeArtifactName\<close>: \<open>None\<close> for an optional parameter is an omitted
  argument, which takes the default of the signature; the result \<open>Inr None\<close> is
  \<open>null\<close>.
\<close>

definition defaultSafePattern :: string where
  "defaultSafePattern = ''${name}-${version}-${arch}.${ext}''"

definition computeSafeArtifactName ::
  "macroExpander \<Rightarrow> Platform \<Rightarrow> AppInfo \<Rightarrow> string option \<Rightarrow> string \<Rightarrow> Arch option
     \<Rightarrow> bool option \<Rightarrow> string option \<Rightarrow> error + string option" where
  "computeSafeArtifactName doExpandMacro platform appInfo suggestedName ext arch
      skipArchIfX64Arg safePatternArg =
     (let skipArchIfX64 = (case skipArchIfX64Arg of None \<Rightarrow> True | Some b \<Rightarrow> b);
          safePattern = (case safePatternArg of None \<Rightarrow> defaultSafePattern | Some p \<Rightarrow> p)
      in if (case suggestedName of None \<Rightarrow> False | Some s \<Rightarrow> isSafeGithubName s)
         then Inr None
         else map_sum id Some
                (computeArtifactName doExpandMacro platform appInfo safePattern ext
                   (if skipArchIfX64 \<and> arch = Some x64 then None else arch)))"

text \<open>
  Modelled from the spec: the macro expander itself (module \<open>util/macroExpander\<close>) is not
  part of the file under study. The spec says it substitutes named placeholders (product
  name, package name, version, architecture name, output file extension, platform
  identifier) into a pattern, that an unknown placeholder is an error, and that the
  product name is sanitised by default. A placeholder is written \<open>${key}\<close>. This
  expander is used to evaluate the functions above on concrete inputs only.
\<close>

datatype scanState = Literal | Dollar | Key string

definition lookupMacro ::
  "string option \<Rightarrow> AppInfo \<Rightarrow> (string \<rightharpoonup> string) \<Rightarrow> bool \<Rightarrow> string \<Rightarrow> string option" where
  "lookupMacro arch appInfo extra sanitized key =
     (if key = ''productName'' then
        Some (if sanitized then productFilename appInfo else productName appInfo)
      else if key = ''name'' then Some (name appInfo)
      else if key = ''version'' then Some (version appInfo)
      else if key = ''arch'' then Some (case arch of None \<Rightarrow> [] | Some a \<Rightarrow> a)
      else extra key)"

fun prepend :: "string \<Rightarrow> error + string \<Rightarrow> error + string" where
  "prepend s (Inl e) = Inl e"
| "prepend s (Inr t) = Inr (s @ t)"

fun scanMacros :: "(string \<Rightarrow> string option) \<Rightarrow> scanState \<Rightarrow> string \<Rightarrow> error + string" where
  "scanMacros f Literal [] = Inr []"
| "scanMacros f Dollar [] = Inr ''$''"
| "scanMacros f (Key k) [] = Inr (''${'' @ k)"
| "scanMacros f Literal (c # cs) =
     (if c = CHR ''$'' then scanMacros f Dollar cs else prepend [c] (scanMacros f Literal cs))"
| "scanMacros f Dollar (c # cs) =
     (if c = CHR ''{'' then scanMacros f (Key []) cs
      else if c = CHR ''$'' then prepend ''$'' (scanMacros f Dollar cs)
      else prepend [CHR ''$'', c] (scanMacros f Literal cs))"
| "scanMacros f (Key k) (c # cs) =
     (if c = CHR ''}'' then
        (case f k of
           None \<Rightarrow> Inl (MacroNotDefined k)
         | Some v \<Rightarrow> prepend v (scanMacros f Literal cs))
      else scanMacros f (Key (k @ [c])) cs)"

definition specExpandMacro :: macroExpander where
  "specExpandMacro pattern arch appInfo extra sanitized =
     scanMacros (lookupMacro arch appInfo extra sanitized) Literal pattern"

definition fooApp :: AppInfo where
  "fooApp = \<lparr> name = ''foo-app'', productName = ''Foo App'', productFilename = ''Foo App'',
              version = ''1.2.3'' \<rparr>"

section \<open>Archive options\<close>

text \<open>
  The \<open>asar\<close> option is declared as \<open>AsarOptions | boolean | null\<close> and may be absent.
  An \<open>AsarOptions\<close> object is an association list of its properties.
\<close>

type_synonym AsarOptions = "(string \<times> jsval) list"

datatype asarSetting =
    AsarUndefined
  | AsarNull
  | AsarBool bool
  | AsarObject AsarOptions

fun asarIsNullish :: "asarSetting \<Rightarrow> bool" where
  "asarIsNullish AsarUndefined = True"
| "asarIsNullish AsarNull = True"
| "asarIsNullish _ = False"

datatype stat = IsFile | IsDirectory | IsOther

datatype logEntry = WarnAsarDisabled

text \<open>The loop \<open>for (const name of ["unpackDir", "unpack"])\<close> over an options object.\<close>

fun checkDeprecatedAsarKeys :: "AsarOptions \<Rightarrow> string list \<Rightarrow> error option" where
  "checkDeprecatedAsarKeys obj [] = None"
| "checkDeprecatedAsarKeys obj (n # ns) =
     (if \<not> isNullish (getProp obj n) then Some (DeprecatedOption (''asar.'' @ n))
      else checkDeprecatedAsarKeys obj ns)"

text \<open>
  \<open>computeAsarOptions\<close>. Arguments: whether the framework is Electron-based, the
  configuration's \<open>"asar-unpack"\<close>, \<open>"asar-unpack-dir"\<close> and \<open>asar\<close>, the platform-specific
  \<open>asar\<close>, and the result of \<open>statOrNull\<close> on \<open>app.asar\<close> in the application directory.
  The result is the list of warnings logged and either the error thrown or the options
  (\<open>None\<close> is \<open>null\<close>). \<open>deepAssign({}, result)\<close> is a copy of the object.
\<close>

definition computeAsarOptions ::
  "bool \<Rightarrow> jsval \<Rightarrow> jsval \<Rightarrow> asarSetting \<Rightarrow> asarSetting \<Rightarrow> stat option
     \<Rightarrow> logEntry list \<times> (error + AsarOptions option)" where
  "computeAsarOptions electronBased asarUnpack asarUnpackDir configAsar platformSpecific
      appAsarStat =
     (if \<not> electronBased then ([], Inr None)
      else if \<not> isNullish asarUnpack then ([], Inl (DeprecatedOption ''asar-unpack''))
      else if \<not> isNullish asarUnpackDir then ([], Inl (DeprecatedOption ''asar-unpack-dir''))
      else
        (let result = (if asarIsNullish platformSpecific then configAsar else platformSpecific)
         in case result of
              AsarBool False \<Rightarrow>
                (if appAsarStat \<noteq> Some IsFile then [WarnAsarDisabled] else [], Inr None)
            | AsarBool True \<Rightarrow> ([], Inr (Some []))
            | AsarUndefined \<Rightarrow> ([], Inr (Some []))
            | AsarNull \<Rightarrow> ([], Inr (Some []))
            | AsarObject obj \<Rightarrow>
                (case checkDeprecatedAsarKeys obj [''unpackDir'', ''unpack''] of
                   Some e \<Rightarrow> ([], Inl e)
                 | None \<Rightarrow> ([], Inr (Some obj)))))"

section \<open>The packager\<close>

text \<open>
  The functions of Node's \<open>path\<close> module that the packager calls. They belong to the
  runtime, not to the program, and are parameters of the model.
\<close>

record nodePath =
  path_join :: "string list \<Rightarrow> string"
  path_resolve :: "string \<Rightarrow> string \<Rightarrow> string"
  path_relative :: "string \<Rightarrow> string \<Rightarrow> string"
  path_parse_dir :: "string \<Rightarrow> string"
  path_parse_base :: "string \<Rightarrow> string"
  path_sep :: char

text \<open>
  A file matcher, as far as this file touches it: source and destination roots, patterns,
  and the exclusion list that \<open>copyAppFiles\<close> assigns (\<open>None\<close> until assigned).
\<close>

record FileMatcher =
  matcher_from :: string
  matcher_to :: string
  patterns :: "string list"
  excludePatterns :: "string list option"

text \<open>
  What \<open>doPack\<close> does that can be observed from outside: calls to collaborators, reads of
  the cancellation token, and the packager's own checks. \<open>CopyAppFiles\<close> records the
  archive options and the exclusion patterns it is called with, \<open>CopyFiles\<close> the matchers,
  \<open>BeforeCopyExtraFiles\<close> whether integrity data was computed for it,
  \<open>SanityCheckPackage\<close> and \<open>SignApp\<close> the flag \<open>isAsar\<close>.
\<close>

datatype event =
    LogPackaging
  | PrepareApplicationStageDirectory
  | ComputeExtraFileMatchers bool
  | ComputeAsarOptions
  | CopyAppFiles "AsarOptions option" "string list"
  | AwaitTasks
  | ReadCancelled
  | BeforeCopyExtraFiles bool
  | CopyFiles "FileMatcher list option"
  | AfterPack
  | SanityCheckPackage bool
  | SignApp bool
  | AfterSign

text \<open>
  The packager with its collaborators. \<open>getFileMatchers name from to\<close> stands for
  \<open>getFileMatchers(config, name, from, to, options)\<close>; \<open>checkFileInArchive\<close> and
  \<open>collaborator\<close> give the outcome (an error thrown, or none) of the archive checker and
  of every other awaited call; \<open>statOrNull\<close> is the file system at the time of the
  call. \<open>cancelAt = Some k\<close> says that the cancellation token is set while the action
  number \<open>k\<close> of the run (counted from 0) is in progress; it is never reset.
\<close>

record packager =
  platform :: Platform
  appInfo :: AppInfo
  prepackaged :: "string option"
  isElectronBased :: bool
  projectDir :: string
  appDir :: string
  metadata_main :: "string option"
  config_asar_unpack :: jsval
  config_asar_unpack_dir :: jsval
  config_asar :: asarSetting
  beforeCopyExtraFiles :: bool
  nodePath :: nodePath
  statOrNull :: "string \<Rightarrow> stat option"
  checkFileInArchive :: "string \<Rightarrow> string \<Rightarrow> string \<Rightarrow> error option"
  getFileMatchers :: "string \<Rightarrow> string \<Rightarrow> string \<Rightarrow> FileMatcher list option"
  collaborator :: "event \<Rightarrow> error option"
  cancelAt :: "nat option"

subsection \<open>Resource directories\<close>

definition getMacOsResourcesDir :: "packager \<Rightarrow> string \<Rightarrow> string" where
  "getMacOsResourcesDir pk appOutDir =
     path_join (nodePath pk)
       [appOutDir, productFilename (appInfo pk) @ ''.app'', ''Contents'', ''Resources'']"

definition getResourcesDir :: "packager \<Rightarrow> string \<Rightarrow> string" where
  "getResourcesDir pk appOutDir =
     (if platform pk = MAC then getMacOsResourcesDir pk appOutDir
      else if isElectronBased pk then path_join (nodePath pk) [appOutDir, ''resources'']
      else appOutDir)"

subsection \<open>Sanity check\<close>

text \<open>\<open>String.prototype.split\<close> with a one-character separator.\<close>

fun splitOn :: "char \<Rightarrow> string \<Rightarrow> string list" where
  "splitOn c [] = [[]]"
| "splitOn c (x # xs) =
     (if x = c then [] # splitOn c xs
      else (case splitOn c xs of [] \<Rightarrow> [[x]] | p # ps \<Rightarrow> (x # p) # ps))"

text \<open>
  The value of \<open>partWithAsarIndex\<close> after \<open>pathSplit.some(...)\<close>: the callback stores
  each index it visits and stops at the first part that ends with \<open>.asar\<close>.
\<close>

fun partWithAsarIndexFrom :: "nat \<Rightarrow> nat \<Rightarrow> string list \<Rightarrow> nat" where
  "partWithAsarIndexFrom cur i [] = cur"
| "partWithAsarIndexFrom cur i (pathPart # rest) =
     (if suffix ''.asar'' pathPart then i else partWithAsarIndexFrom i (Suc i) rest)"

definition partWithAsarIndex :: "string list \<Rightarrow> nat" where
  "partWithAsarIndex pathSplit = partWithAsarIndexFrom 0 0 pathSplit"

text \<open>
  \<open>checkFileInPackage\<close>. In the branch for a file inside a hand-made archive,
  \<open>path.join.apply(pathSplit.slice(...))\<close> passes the slice as \<open>this\<close> and no argument,
  which is \<open>path.join()\<close>; \<open>mainPath += path.join(mainPath, base)\<close> appends to the
  old value.
\<close>

definition checkFileInPackage ::
  "packager \<Rightarrow> string \<Rightarrow> string \<Rightarrow> string \<Rightarrow> bool \<Rightarrow> error + unit" where
  "checkFileInPackage pk resourcesDir file messagePrefix isAsar =
     (let P = nodePath pk;
          relativeFile = path_relative P (appDir pk) (path_resolve P (appDir pk) file)
      in if isAsar then
           (case checkFileInArchive pk (path_join P [resourcesDir, ''app.asar''])
                   relativeFile messagePrefix of
              Some e \<Rightarrow> Inl e
            | None \<Rightarrow> Inr ())
         else if sublist ''.asar'' (path_parse_dir P file) then
           (let pathSplit = splitOn (path_sep P) (path_parse_dir P file);
                idx = partWithAsarIndex pathSplit;
                asarPath = path_join P (take (idx + 1) pathSplit);
                mainPath0 = (if length pathSplit > idx + 1 then path_join P [] else []);
                mainPath = mainPath0 @ path_join P [mainPath0, path_parse_base P file]
            in case checkFileInArchive pk (path_join P [resourcesDir, ''app'', asarPath])
                      mainPath messagePrefix of
                 Some e \<Rightarrow> Inl e
               | None \<Rightarrow> Inr ())
         else
           (case statOrNull pk (path_join P [resourcesDir, ''app'', relativeFile]) of
              None \<Rightarrow> Inl (FileDoesNotExist messagePrefix relativeFile)
            | Some outStat \<Rightarrow>
                if outStat \<noteq> IsFile then Inl (FileIsNotFile messagePrefix relativeFile)
                else Inr ()))"

text \<open>\<open>this.info.metadata.main || "index.js"\<close>: an empty string is falsy.\<close>

definition entryFile :: "packager \<Rightarrow> string" where
  "entryFile pk =
     (case metadata_main pk of
        None \<Rightarrow> ''index.js''
      | Some m \<Rightarrow> if m = [] then ''index.js'' else m)"

definition sanityCheckPackage :: "packager \<Rightarrow> string \<Rightarrow> bool \<Rightarrow> error + unit" where
  "sanityCheckPackage pk appOutDir isAsar =
     (case statOrNull pk appOutDir of
        None \<Rightarrow> Inl (OutputDirMissing appOutDir)
      | Some outStat \<Rightarrow>
          if outStat \<noteq> IsDirectory then Inl (OutputDirNotDirectory appOutDir)
          else
            (let resourcesDir = getResourcesDir pk appOutDir in
             case checkFileInPackage pk resourcesDir (entryFile pk)
                    ''Application entry file'' isAsar of
               Inl e \<Rightarrow> Inl e
             | Inr u \<Rightarrow>
                 checkFileInPackage pk resourcesDir ''package.json'' ''Application'' isAsar))"

subsection \<open>Extra files and exclusion patterns\<close>

text \<open>
  \<open>getExtraFileMatchers\<close>: extra resources go to the resources directory, extra files
  to the output directory (on macOS to \<open>Contents\<close> of the application bundle).
\<close>

definition getExtraFileMatchers :: "packager \<Rightarrow> bool \<Rightarrow> string \<Rightarrow> FileMatcher list option" where
  "getExtraFileMatchers pk isResources appOutDir =
     (let base =
        (if isResources then getResourcesDir pk appOutDir
         else if platform pk = MAC then
           path_join (nodePath pk)
             [appOutDir, productFilename (appInfo pk) @ ''.app'', ''Contents'']
         else appOutDir)
      in getFileMatchers pk (if isResources then ''extraResources'' else ''extraFiles'')
           (projectDir pk) base)"

text \<open>
  Modelled from the spec: the method \<open>FileMatcher.computeParsedPatterns(result, fromDir)\<close>
  is defined in the module \<open>fileMatcher\<close>, which is not part of the file under study. The
  spec says that a matcher's compiled patterns are computed apart from matching, so that
  they can be propagated as exclusions to other matchers: the method adds the matcher's
  patterns to the list \<open>result\<close>.
\<close>

definition matcherComputeParsedPatterns :: "FileMatcher \<Rightarrow> string list \<Rightarrow> string \<Rightarrow> string list" where
  "matcherComputeParsedPatterns m result fromDir = result @ patterns m"

text \<open>
  The closure \<open>computeParsedPatterns\<close> of \<open>doPack\<close>: every matcher of the list, if there
  is a list, adds to the shared array \<open>excludePatterns\<close>.
\<close>

fun computeParsedPatterns :: "FileMatcher list option \<Rightarrow> string list \<Rightarrow> string \<Rightarrow> string list" where
  "computeParsedPatterns None excl dir = excl"
| "computeParsedPatterns (Some []) excl dir = excl"
| "computeParsedPatterns (Some (m # ms)) excl dir =
     computeParsedPatterns (Some ms) (matcherComputeParsedPatterns m excl dir) dir"






subsection \<open>The packaging pipeline\<close>

datatype outcome = Completed | ReturnedEarly | Threw error

text \<open>
  The cancellation token as read when \<open>n\<close> actions of the run are over.
\<close>

definition cancelled :: "packager \<Rightarrow> nat \<Rightarrow> bool" where
  "cancelled pk n = (case cancelAt pk of None \<Rightarrow> False | Some k \<Rightarrow> k < n)"

text \<open>
  The outcome of one awaited action: the packager's own functions are evaluated, the
  collaborators answer for the rest.
\<close>

definition appAsarStat :: "packager \<Rightarrow> stat option" where
  "appAsarStat pk = statOrNull pk (path_join (nodePath pk) [appDir pk, ''app.asar''])"

definition asarOptionsOf :: "packager \<Rightarrow> asarSetting \<Rightarrow> error + AsarOptions option" where
  "asarOptionsOf pk customAsar =
     snd (computeAsarOptions (isElectronBased pk) (config_asar_unpack pk)
            (config_asar_unpack_dir pk) (config_asar pk) customAsar (appAsarStat pk))"

definition perform :: "packager \<Rightarrow> string \<Rightarrow> asarSetting \<Rightarrow> event \<Rightarrow> error option" where
  "perform pk appOutDir customAsar e =
     (case e of
        SanityCheckPackage isAsar \<Rightarrow>
          (case sanityCheckPackage pk appOutDir isAsar of Inl err \<Rightarrow> Some err | Inr u \<Rightarrow> None)
      | ComputeAsarOptions \<Rightarrow>
          (case asarOptionsOf pk customAsar of Inl err \<Rightarrow> Some err | Inr r \<Rightarrow> None)
      | ReadCancelled \<Rightarrow> None
      | _ \<Rightarrow> collaborator pk e)"

text \<open>
  Running a sequence of actions: an action that throws ends the run with its error; a read
  of the cancellation token that finds it set ends the run with a plain return.
\<close>

fun run :: "packager \<Rightarrow> string \<Rightarrow> asarSetting \<Rightarrow> event list \<Rightarrow> event list
              \<Rightarrow> event list \<times> outcome" where
  "run pk appOutDir customAsar [] tr = (tr, Completed)"
| "run pk appOutDir customAsar (e # es) tr =
     (if e = ReadCancelled then
        (if cancelled pk (length tr) then (tr @ [e], ReturnedEarly)
         else run pk appOutDir customAsar es (tr @ [e]))
      else
        (case perform pk appOutDir customAsar e of
           Some err \<Rightarrow> (tr @ [e], Threw err)
         | None \<Rightarrow> run pk appOutDir customAsar es (tr @ [e])))"

text \<open>
  The statements of \<open>doPack\<close> after the test of \<open>prepackaged\<close>, in order. What follows
  \<open>computeAsarOptions\<close> depends on its result.
\<close>

definition doPackActions :: "packager \<Rightarrow> string \<Rightarrow> asarSetting \<Rightarrow> event list" where
  "doPackActions pk appOutDir customAsar =
     (let extraResourceMatchers = getExtraFileMatchers pk True appOutDir;
          excludePatterns1 = computeParsedPatterns extraResourceMatchers [] (projectDir pk);
          extraFileMatchers = getExtraFileMatchers pk False appOutDir;
          excludePatterns2 =
            computeParsedPatterns extraFileMatchers excludePatterns1 (projectDir pk)
      in [LogPackaging, PrepareApplicationStageDirectory,
          ComputeExtraFileMatchers True, ComputeExtraFileMatchers False,
          ComputeAsarOptions]
         @ (case asarOptionsOf pk customAsar of
              Inl err \<Rightarrow> []
            | Inr asarOptions \<Rightarrow>
                [CopyAppFiles asarOptions excludePatterns2, AwaitTasks, ReadCancelled]
                @ (if beforeCopyExtraFiles pk
                   then [BeforeCopyExtraFiles (asarOptions \<noteq> None)] else [])
                @ [CopyFiles extraResourceMatchers, CopyFiles extraFileMatchers,
                   ReadCancelled,
                   AfterPack,
                   SanityCheckPackage (asarOptions \<noteq> None),
                   SignApp (asarOptions \<noteq> None),
                   AfterSign]))"

definition doPack :: "packager \<Rightarrow> string \<Rightarrow> asarSetting \<Rightarrow> event list \<times> outcome" where
  "doPack pk appOutDir customAsar =
     (if prepackaged pk \<noteq> None then ([], ReturnedEarly)
      else run pk appOutDir customAsar (doPackActions pk appOutDir customAsar) [])"

subsection \<open>Copying the application files\<close>

text \<open>
  A file transformer maps a file to new content, or to \<open>null\<close> (\<open>None\<close>) to leave it
  as it is.
\<close>

type_synonym fileTransformer = "string \<Rightarrow> string option"

text \<open>The closure \<open>combinedTransformer\<close> of \<open>copyAppFiles\<close>.\<close>

definition combinedTransformer ::
  "fileTransformer option \<Rightarrow> fileTransformer \<Rightarrow> fileTransformer" where
  "combinedTransformer transformerForExtraFiles transformer file =
     (case transformerForExtraFiles of
        Some t \<Rightarrow>
          (case t file of
             Some result \<Rightarrow> Some result
           | None \<Rightarrow> transformer file)
      | None \<Rightarrow> transformer file)"

text \<open>
  The task that \<open>copyAppFiles\<close> adds to the task manager: either the file sets of some
  matchers are copied, each file through a transformer, or they are transformed and
  packed into an archive with an optional matcher for the files to leave unpacked.
\<close>

datatype scheduledCopy =
    CopyFileSets "FileMatcher list" fileTransformer
  | TransformAndPack "FileMatcher list" fileTransformer AsarOptions "FileMatcher option"

text \<open>
  What \<open>copyAppFiles\<close> reads from the packager besides the fields above:
  \<open>getMainFileMatchers appDir destination isElectronCompile\<close> and
  \<open>createTransformer isElectronCompile\<close> stand for the calls of the same name,
  \<open>createTransformerForExtraFiles\<close> for the overridable method.
\<close>

record copyContext =
  isPrepackedAppAsar :: bool
  isElectronCompileUsed :: bool
  getMainFileMatchers :: "string \<Rightarrow> string \<Rightarrow> bool \<Rightarrow> FileMatcher list"
  createTransformer :: "bool \<Rightarrow> fileTransformer"
  createTransformerForExtraFiles :: "fileTransformer option"

definition installExcludePatterns :: "string list \<Rightarrow> FileMatcher list \<Rightarrow> FileMatcher list" where
  "installExcludePatterns excl mainMatchers =
     (if length excl > 0 then map (\<lambda>matcher. matcher\<lparr>excludePatterns := Some excl\<rparr>) mainMatchers
      else mainMatchers)"

definition copyAppFiles ::
  "packager \<Rightarrow> copyContext \<Rightarrow> AsarOptions option \<Rightarrow> string \<Rightarrow> string \<Rightarrow> string list
     \<Rightarrow> scheduledCopy" where
  "copyAppFiles pk cx asarOptions resourcePath defaultDestination excl =
     (let isElectronCompile = (asarOptions \<noteq> None \<and> isElectronCompileUsed cx);
          mainMatchers =
            installExcludePatterns excl
              (getMainFileMatchers cx (appDir pk) defaultDestination isElectronCompile);
          transformer = createTransformer cx isElectronCompile
      in if isPrepackedAppAsar cx then
           CopyFileSets
             [\<lparr>matcher_from = appDir pk, matcher_to = resourcePath, patterns = [],
               excludePatterns = None\<rparr>]
             transformer
         else
           (case asarOptions of
              None \<Rightarrow>
                CopyFileSets mainMatchers
                  (combinedTransformer (createTransformerForExtraFiles cx) transformer)
            | Some opts \<Rightarrow>
                (let unpackPattern =
                       getFileMatchers pk ''asarUnpack'' (appDir pk) defaultDestination;
                     fileMatcher =
                       (case unpackPattern of
                          None \<Rightarrow> None
                        | Some [] \<Rightarrow> None
                        | Some (m # ms) \<Rightarrow> Some m)
                 in TransformAndPack mainMatchers transformer opts fileMatcher)))"

subsection \<open>Building the targets\<close>













section \<open>Concrete collaborators for evaluation\<close>

text \<open>
  An instance of the path functions for POSIX paths without \<open>..\<close> segments, as Node's
  \<open>path\<close> module computes them on such paths: \<open>join\<close> drops empty and \<open>.\<close> segments
  and is \<open>.\<close> when nothing is left.
\<close>

fun joinSegments :: "string list \<Rightarrow> string" where
  "joinSegments [] = []"
| "joinSegments [s] = s"
| "joinSegments (s # t # ss) = s @ ''/'' @ joinSegments (t # ss)"

definition posixNormalize :: "string \<Rightarrow> string" where
  "posixNormalize p =
     (let body = joinSegments (filter (\<lambda>s. s \<noteq> [] \<and> s \<noteq> ''.'') (splitOn CHR ''/'' p))
      in if prefix ''/'' p then ''/'' @ body else if body = [] then ''.'' else body)"

definition posixPath :: nodePath where
  "posixPath =
     \<lparr> path_join = (\<lambda>parts. posixNormalize (joinSegments (filter (\<lambda>s. s \<noteq> []) parts))),
       path_resolve = (\<lambda>from to.
          if prefix ''/'' to then posixNormalize to else posixNormalize (from @ ''/'' @ to)),
       path_relative = (\<lambda>from to.
          if prefix (from @ ''/'') to then drop (length from + 1) to
          else if from = to then [] else to),
       path_parse_dir = (\<lambda>file. joinSegments (butlast (splitOn CHR ''/'' file))),
       path_parse_base = (\<lambda>file. last (splitOn CHR ''/'' file)),
       path_sep = CHR ''/'' \<rparr>"

text \<open>
  A Linux packager of an Electron application whose collaborators all succeed: the output
  directory holds \<open>resources/app/index.js\<close> and \<open>resources/app/package.json\<close>, archiving
  is switched off in the configuration, there are no extra files.
\<close>

definition unpackedDisk :: "string \<Rightarrow> stat option" where
  "unpackedDisk p =
     (if p = ''/out/linux-unpacked'' then Some IsDirectory
      else if p = ''/out/linux-unpacked/resources/app/index.js'' then Some IsFile
      else if p = ''/out/linux-unpacked/resources/app/package.json'' then Some IsFile
      else None)"

definition linuxPackager :: packager where
  "linuxPackager =
     \<lparr> platform = LINUX, appInfo = fooApp, prepackaged = None, isElectronBased = True,
       projectDir = ''/proj'', appDir = ''/proj/app'', metadata_main = None,
       config_asar_unpack = JUndefined, config_asar_unpack_dir = JUndefined,
       config_asar = AsarBool False, beforeCopyExtraFiles = True,
       nodePath = posixPath, statOrNull = unpackedDisk,
       checkFileInArchive = (\<lambda>archive file messagePrefix. None),
       getFileMatchers = (\<lambda>key from to. None),
       collaborator = (\<lambda>e. None),
       cancelAt = None \<rparr>"

text \<open>
  A copy context without a pre-packed archive: the main transformer rewrites
  \<open>package.json\<close>, the transformer for extra files rewrites executables.
\<close>

definition plainCopyContext :: copyContext where
  "plainCopyContext =
     \<lparr> isPrepackedAppAsar = False, isElectronCompileUsed = False,
       getMainFileMatchers = (\<lambda>from to isElectronCompile.
          [\<lparr>matcher_from = from, matcher_to = to, patterns = [''**/*''],
            excludePatterns = None\<rparr>]),
       createTransformer = (\<lambda>isElectronCompile file.
          if file = ''package.json'' then Some ''{name: foo-app}'' else None),
       createTransformerForExtraFiles =
         Some (\<lambda>file. if suffix ''.exe'' file then Some ''signed'' else None) \<rparr>"










text \<open>
  An archive checker that finds nothing and reports the archive and the path it was asked
  for.
\<close>

definition reportingChecker :: "string \<Rightarrow> string \<Rightarrow> string \<Rightarrow> error option" where
  "reportingChecker archive file messagePrefix = Some (NotInArchive archive file)"





section \<open>Properties of the compression level\<close>

lemma truthy_not_nullish: "truthy v \<Longrightarrow> \<not> isNullish v"
  by (cases v) simp_all

text \<open>
  C10. The compression level is \<open>"normal"\<close> whenever the platform-specific option is
  explicitly \<open>null\<close>, whatever the top-level configuration says; otherwise it is the
  platform-specific value when that is set (truthy), else the top-level value when that is
  set, else \<open>"normal"\<close>. The result is never \<open>null\<close> or \<open>undefined\<close>.
\<close>

theorem compression_resolution:
  "(p = JNull \<longrightarrow> compression p c = JStr ''normal'')
   \<and> (truthy p \<longrightarrow> compression p c = p)
   \<and> (p \<noteq> JNull \<and> \<not> truthy p \<and> truthy c \<longrightarrow> compression p c = c)
   \<and> (p \<noteq> JNull \<and> \<not> truthy p \<and> \<not> truthy c \<longrightarrow> compression p c = JStr ''normal'')
   \<and> \<not> isNullish (compression p c)"
proof -
  have nn: "\<not> isNullish (compression p c)"
  proof (cases "p = JNull")
    case True
    then show ?thesis by (simp add: compression_def)
  next
    case False
    show ?thesis
    proof (cases "truthy p")
      case True
      with False show ?thesis
        by (simp add: compression_def js_or_def truthy_not_nullish)
    next
      case np: False
      show ?thesis
        using False np
        by (cases "truthy c") (simp_all add: compression_def js_or_def truthy_not_nullish)
    qed
  qed
  have "truthy p \<Longrightarrow> p \<noteq> JNull" by auto
  then show ?thesis
    using nn by (auto simp: compression_def js_or_def)
qed

text \<open>
  Witness for C10: an explicit \<open>null\<close> overrides the parent's \<open>"store"\<close>; a set
  platform value wins; an absent one falls back to the parent, and then to the default.
\<close>

theorem compression_resolution_witness:
  "compression JNull (JStr ''store'') = JStr ''normal''
   \<and> compression (JStr ''maximum'') (JStr ''store'') = JStr ''maximum''
   \<and> compression JUndefined (JStr ''store'') = JStr ''store''
   \<and> compression JUndefined JUndefined = JStr ''normal''"
  using compression_resolution [of JNull "JStr ''store''"]
    compression_resolution [of "JStr ''maximum''" "JStr ''store''"]
    compression_resolution [of JUndefined "JStr ''store''"]
    compression_resolution [of JUndefined JUndefined]
  by simp

section \<open>Properties of artifact names\<close>

lemma archNameFor_x64:
  "archNameFor ext (Some x64) =
     (if ext = ''AppImage'' \<or> ext = ''rpm'' then Some ''x86_64''
      else if ext = ''deb'' \<or> ext = ''snap'' then Some ''amd64'' else Some ''x64'')"
  by (simp add: archNameFor_def)

lemma archNameFor_ia32:
  "archNameFor ext (Some ia32) =
     (if ext = ''deb'' \<or> ext = ''AppImage'' \<or> ext = ''snap'' then Some ''i386''
      else if ext = ''pacman'' \<or> ext = ''rpm'' then Some ''i686'' else Some ''ia32'')"
  by (simp add: archNameFor_def)

lemma computeArtifactName_mac:
  "computeArtifactName E MAC app pat ext arch =
     expandMacro E MAC app pat None [''ext'' \<mapsto> ext] True"
  by (simp add: computeArtifactName_def)

lemma computeArtifactName_other:
  "plat \<noteq> MAC \<Longrightarrow>
   computeArtifactName E plat app pat ext arch =
     expandMacro E plat app pat (archNameFor ext arch) [''ext'' \<mapsto> ext] True"
  by (simp add: computeArtifactName_def)

text \<open>
  C5 as stated fails: the claim names no platform, and for the macOS packager the
  architecture handed to the macro expander is \<open>null\<close> whatever the extension. With the
  pattern \<open>${productName}-${version}-${arch}.${ext}\<close>, x64 and \<open>deb\<close>, the macOS packager
  does not produce what expanding with \<open>amd64\<close> produces.
\<close>

theorem computeArtifactName_mac_counterexample:
  "computeArtifactName specExpandMacro MAC fooApp
      ''${productName}-${version}-${arch}.${ext}'' ''deb'' (Some x64)
   \<noteq> expandMacro specExpandMacro MAC fooApp
      ''${productName}-${version}-${arch}.${ext}'' (Some ''amd64'') [''ext'' \<mapsto> ''deb''] True"
  by (simp add: computeArtifactName_def expandMacro_def specExpandMacro_def lookupMacro_def
      fooApp_def)

text \<open>
  C5, amended. On every platform other than macOS the architecture passed to the macro
  expander is \<open>x86_64\<close> for x64 with AppImage and rpm, \<open>amd64\<close> for x64 with deb and snap,
  \<open>i386\<close> for ia32 with deb, AppImage and snap, and \<open>i686\<close> for ia32 with pacman and rpm;
  on macOS it is \<open>null\<close> for every extension and architecture.
\<close>

theorem computeArtifactName_arch_alias:
  "(plat \<noteq> MAC \<and> (ext = ''AppImage'' \<or> ext = ''rpm'') \<longrightarrow>
      computeArtifactName E plat app pat ext (Some x64) =
        expandMacro E plat app pat (Some ''x86_64'') [''ext'' \<mapsto> ext] True)
   \<and> (plat \<noteq> MAC \<and> (ext = ''deb'' \<or> ext = ''snap'') \<longrightarrow>
      computeArtifactName E plat app pat ext (Some x64) =
        expandMacro E plat app pat (Some ''amd64'') [''ext'' \<mapsto> ext] True)
   \<and> (plat \<noteq> MAC \<and> (ext = ''deb'' \<or> ext = ''AppImage'' \<or> ext = ''snap'') \<longrightarrow>
      computeArtifactName E plat app pat ext (Some ia32) =
        expandMacro E plat app pat (Some ''i386'') [''ext'' \<mapsto> ext] True)
   \<and> (plat \<noteq> MAC \<and> (ext = ''pacman'' \<or> ext = ''rpm'') \<longrightarrow>
      computeArtifactName E plat app pat ext (Some ia32) =
        expandMacro E plat app pat (Some ''i686'') [''ext'' \<mapsto> ext] True)
   \<and> computeArtifactName E MAC app pat ext arch =
        expandMacro E MAC app pat None [''ext'' \<mapsto> ext] True"
proof -
  have a: "plat \<noteq> MAC \<Longrightarrow> ext = ''AppImage'' \<or> ext = ''rpm'' \<Longrightarrow>
      computeArtifactName E plat app pat ext (Some x64) =
        expandMacro E plat app pat (Some ''x86_64'') [''ext'' \<mapsto> ext] True"
    by (auto simp: computeArtifactName_other archNameFor_x64)
  have b: "plat \<noteq> MAC \<Longrightarrow> ext = ''deb'' \<or> ext = ''snap'' \<Longrightarrow>
      computeArtifactName E plat app pat ext (Some x64) =
        expandMacro E plat app pat (Some ''amd64'') [''ext'' \<mapsto> ext] True"
    by (auto simp: computeArtifactName_other archNameFor_x64)
  have c: "plat \<noteq> MAC \<Longrightarrow> ext = ''deb'' \<or> ext = ''AppImage'' \<or> ext = ''snap'' \<Longrightarrow>
      computeArtifactName E plat app pat ext (Some ia32) =
        expandMacro E plat app pat (Some ''i386'') [''ext'' \<mapsto> ext] True"
    by (auto simp: computeArtifactName_other archNameFor_ia32)
  have d: "plat \<noteq> MAC \<Longrightarrow> ext = ''pacman'' \<or> ext = ''rpm'' \<Longrightarrow>
      computeArtifactName E plat app pat ext (Some ia32) =
        expandMacro E plat app pat (Some ''i686'') [''ext'' \<mapsto> ext] True"
    by (auto simp: computeArtifactName_other archNameFor_ia32)
  show ?thesis
  proof (intro conjI impI)
    show "computeArtifactName E MAC app pat ext arch =
        expandMacro E MAC app pat None [''ext'' \<mapsto> ext] True"
      by (rule computeArtifactName_mac)
  qed (erule conjE, erule (1) a b c d)+
qed

text \<open>
  Witness for the amended C5: the Linux packager expands the pattern
  \<open>${productName}-${version}-${arch}.${ext}\<close> for "Foo App" 1.2.3, x64 and \<open>deb\<close> with
  \<open>amd64\<close>, and for \<open>rpm\<close> with \<open>x86_64\<close>; ia32 gives \<open>i386\<close> and \<open>i686\<close>.
\<close>

theorem computeArtifactName_arch_alias_witness:
  "LINUX \<noteq> MAC
   \<and> computeArtifactName specExpandMacro LINUX fooApp
        ''${productName}-${version}-${arch}.${ext}'' ''deb'' (Some x64)
      = Inr ''Foo App-1.2.3-amd64.deb''
   \<and> computeArtifactName specExpandMacro LINUX fooApp
        ''${productName}-${version}-${arch}.${ext}'' ''rpm'' (Some x64)
      = Inr ''Foo App-1.2.3-x86_64.rpm''
   \<and> computeArtifactName specExpandMacro LINUX fooApp
        ''${productName}-${version}-${arch}.${ext}'' ''deb'' (Some ia32)
      = Inr ''Foo App-1.2.3-i386.deb''
   \<and> computeArtifactName specExpandMacro LINUX fooApp
        ''${productName}-${version}-${arch}.${ext}'' ''rpm'' (Some ia32)
      = Inr ''Foo App-1.2.3-i686.rpm''"
  using
    computeArtifactName_arch_alias [of LINUX "''deb''" specExpandMacro fooApp
      "''${productName}-${version}-${arch}.${ext}''"]
    computeArtifactName_arch_alias [of LINUX "''rpm''" specExpandMacro fooApp
      "''${productName}-${version}-${arch}.${ext}''"]
  by (simp add: expandMacro_def specExpandMacro_def lookupMacro_def fooApp_def)

lemma computeSafeArtifactName_safe:
  "isSafeGithubName s \<Longrightarrow>
   computeSafeArtifactName E plat app (Some s) ext arch skip pat = Inr None"
  by (simp add: computeSafeArtifactName_def)

lemma map_sum_Some_not_null: "map_sum id Some r \<noteq> Inr None"
  by (cases r) simp_all

lemma computeSafeArtifactName_fallback:
  "\<not> (\<exists>s. suggested = Some s \<and> isSafeGithubName s) \<Longrightarrow>
   computeSafeArtifactName E plat app suggested ext arch skip pat =
     map_sum id Some
       (computeArtifactName E plat app
          (case pat of None \<Rightarrow> ''${name}-${version}-${arch}.${ext}'' | Some p \<Rightarrow> p) ext
          (if skip \<noteq> Some False \<and> arch = Some x64 then None else arch))"
  by (cases suggested; cases skip; cases pat)
    (simp_all add: computeSafeArtifactName_def defaultSafePattern_def)

text \<open>
  C6 as stated fails at the empty string: it is not \<open>null\<close> and has no character outside
  \<open>[0-9A-Za-z._-]\<close>, but the regular expression asks for at least one character, so the
  function falls back to the default pattern and does not return \<open>null\<close>.
\<close>

theorem computeSafeArtifactName_empty_counterexample:
  "list_all isSafeChar ''''
   \<and> computeSafeArtifactName specExpandMacro LINUX fooApp (Some '''') ''zip'' None None None
      = Inr (Some ''foo-app-1.2.3-.zip'')"
  by (simp add: computeSafeArtifactName_def defaultSafePattern_def isSafeGithubName_def
      computeArtifactName_def expandMacro_def archNameFor_def specExpandMacro_def
      lookupMacro_def fooApp_def)

text \<open>
  C6, amended. \<open>computeSafeArtifactName\<close> returns \<open>null\<close> exactly when the suggested name
  is not \<open>null\<close>, is not empty and consists only of characters in \<open>[0-9A-Za-z._-]\<close>;
  otherwise it is the expansion of the safe pattern (by default
  \<open>${name}-${version}-${arch}.${ext}\<close>), with a \<open>null\<close> architecture when
  \<open>skipArchIfX64\<close> holds (the default) and the architecture is x64.
\<close>

theorem computeSafeArtifactName_spec:
  "(computeSafeArtifactName E plat app suggested ext arch skip pat = Inr None
      \<longleftrightarrow> (\<exists>s. suggested = Some s \<and> s \<noteq> [] \<and> list_all isSafeChar s))
   \<and> (\<not> (\<exists>s. suggested = Some s \<and> s \<noteq> [] \<and> list_all isSafeChar s) \<longrightarrow>
        computeSafeArtifactName E plat app suggested ext arch skip pat =
          map_sum id Some
            (computeArtifactName E plat app
               (case pat of None \<Rightarrow> ''${name}-${version}-${arch}.${ext}'' | Some p \<Rightarrow> p) ext
               (if skip \<noteq> Some False \<and> arch = Some x64 then None else arch)))"
proof (cases "\<exists>s. suggested = Some s \<and> isSafeGithubName s")
  case True
  then show ?thesis
    by (auto simp: computeSafeArtifactName_safe isSafeGithubName_def)
next
  case False
  have "computeSafeArtifactName E plat app suggested ext arch skip pat \<noteq> Inr None"
    by (simp only: computeSafeArtifactName_fallback [OF False] map_sum_Some_not_null
        not_False_eq_True)
  moreover have "\<not> (\<exists>s. suggested = Some s \<and> s \<noteq> [] \<and> list_all isSafeChar s)"
    using False by (simp add: isSafeGithubName_def)
  ultimately show ?thesis
    using computeSafeArtifactName_fallback [OF False, of E plat app ext arch skip pat]
    by simp
qed

text \<open>
  Witness for the amended C6: a safe name needs no replacement; a name with a space is
  replaced by the expansion of the default pattern, without the architecture for x64.
\<close>

theorem computeSafeArtifactName_spec_witness:
  "computeSafeArtifactName specExpandMacro LINUX fooApp (Some ''Foo-1.2.3_x64.zip'') ''zip''
      (Some x64) None None = Inr None
   \<and> computeSafeArtifactName specExpandMacro LINUX fooApp (Some ''Foo App.zip'') ''zip''
      (Some x64) None None
      = map_sum id Some
          (computeArtifactName specExpandMacro LINUX fooApp
             ''${name}-${version}-${arch}.${ext}'' ''zip'' None)"
  using
    computeSafeArtifactName_spec [of specExpandMacro LINUX fooApp "Some ''Foo-1.2.3_x64.zip''"
      "''zip''" "Some x64" None None]
    computeSafeArtifactName_spec [of specExpandMacro LINUX fooApp "Some ''Foo App.zip''"
      "''zip''" "Some x64" None None]
  by (simp add: isSafeChar_def)

section \<open>Properties of the archive options\<close>

lemma checkDeprecated_two:
  "checkDeprecatedAsarKeys obj [''unpackDir'', ''unpack''] = None
     \<longleftrightarrow> isNullish (getProp obj ''unpackDir'') \<and> isNullish (getProp obj ''unpack'')"
  by simp

text \<open>
  C8 as stated fails: for a framework that is not Electron-based the function returns
  \<open>null\<close> before it looks at the configuration, so a configuration that still contains
  \<open>"asar-unpack"\<close> raises no error.
\<close>

theorem computeAsarOptions_nonElectron_counterexample:
  "snd (computeAsarOptions False (JStr ''**/*.node'') JUndefined AsarUndefined AsarUndefined None)
     = Inr None"
  by (simp add: computeAsarOptions_def)

text \<open>
  C8, amended. For a framework that is not Electron-based \<open>computeAsarOptions\<close> returns
  \<open>null\<close> whatever the configuration. For an Electron-based framework it raises an error
  when the configuration contains \<open>"asar-unpack"\<close> or \<open>"asar-unpack-dir"\<close>, or when
  the effective \<open>asar\<close> value (the platform-specific one unless it is \<open>null\<close> or absent,
  else the configuration's) is an object with \<open>unpackDir\<close> or \<open>unpack\<close>; otherwise it
  returns \<open>null\<close> when the effective value is \<open>false\<close>, an empty options object when it
  is absent, \<open>null\<close> or \<open>true\<close>, and a copy of the object otherwise.
\<close>

theorem computeAsarOptions_spec:
  "(\<not> el \<longrightarrow> snd (computeAsarOptions el u ud ca pa st) = Inr None)
   \<and> (el \<and> \<not> isNullish u \<longrightarrow>
        snd (computeAsarOptions el u ud ca pa st) = Inl (DeprecatedOption ''asar-unpack''))
   \<and> (el \<and> isNullish u \<and> \<not> isNullish ud \<longrightarrow>
        snd (computeAsarOptions el u ud ca pa st) = Inl (DeprecatedOption ''asar-unpack-dir''))
   \<and> (\<forall>obj. el \<and> isNullish u \<and> isNullish ud
          \<and> (if asarIsNullish pa then ca else pa) = AsarObject obj
          \<and> \<not> isNullish (getProp obj ''unpackDir'') \<longrightarrow>
        snd (computeAsarOptions el u ud ca pa st) = Inl (DeprecatedOption ''asar.unpackDir''))
   \<and> (\<forall>obj. el \<and> isNullish u \<and> isNullish ud
          \<and> (if asarIsNullish pa then ca else pa) = AsarObject obj
          \<and> isNullish (getProp obj ''unpackDir'') \<and> \<not> isNullish (getProp obj ''unpack'') \<longrightarrow>
        snd (computeAsarOptions el u ud ca pa st) = Inl (DeprecatedOption ''asar.unpack''))
   \<and> (el \<and> isNullish u \<and> isNullish ud
          \<and> (if asarIsNullish pa then ca else pa) = AsarBool False \<longrightarrow>
        snd (computeAsarOptions el u ud ca pa st) = Inr None)
   \<and> (el \<and> isNullish u \<and> isNullish ud
          \<and> (asarIsNullish (if asarIsNullish pa then ca else pa)
               \<or> (if asarIsNullish pa then ca else pa) = AsarBool True) \<longrightarrow>
        snd (computeAsarOptions el u ud ca pa st) = Inr (Some []))
   \<and> (\<forall>obj. el \<and> isNullish u \<and> isNullish ud
          \<and> (if asarIsNullish pa then ca else pa) = AsarObject obj
          \<and> isNullish (getProp obj ''unpackDir'') \<and> isNullish (getProp obj ''unpack'') \<longrightarrow>
        snd (computeAsarOptions el u ud ca pa st) = Inr (Some obj))"
proof (intro conjI allI impI)
  fix obj
  assume "el \<and> isNullish u \<and> isNullish ud
          \<and> (if asarIsNullish pa then ca else pa) = AsarObject obj
          \<and> \<not> isNullish (getProp obj ''unpackDir'')"
  then show "snd (computeAsarOptions el u ud ca pa st) = Inl (DeprecatedOption ''asar.unpackDir'')"
    by (simp add: computeAsarOptions_def Let_def)
next
  fix obj
  assume "el \<and> isNullish u \<and> isNullish ud
          \<and> (if asarIsNullish pa then ca else pa) = AsarObject obj
          \<and> isNullish (getProp obj ''unpackDir'') \<and> \<not> isNullish (getProp obj ''unpack'')"
  then show "snd (computeAsarOptions el u ud ca pa st) = Inl (DeprecatedOption ''asar.unpack'')"
    by (simp add: computeAsarOptions_def Let_def)
next
  fix obj
  assume "el \<and> isNullish u \<and> isNullish ud
          \<and> (if asarIsNullish pa then ca else pa) = AsarObject obj
          \<and> isNullish (getProp obj ''unpackDir'') \<and> isNullish (getProp obj ''unpack'')"
  then show "snd (computeAsarOptions el u ud ca pa st) = Inr (Some obj)"
    by (simp add: computeAsarOptions_def Let_def)
next
  assume "el \<and> isNullish u \<and> isNullish ud
          \<and> (asarIsNullish (if asarIsNullish pa then ca else pa)
               \<or> (if asarIsNullish pa then ca else pa) = AsarBool True)"
  then show "snd (computeAsarOptions el u ud ca pa st) = Inr (Some [])"
    by (cases "if asarIsNullish pa then ca else pa")
      (auto simp: computeAsarOptions_def Let_def)
qed (simp_all add: computeAsarOptions_def Let_def)

text \<open>
  Witness for the amended C8, one configuration for each case.
\<close>

theorem computeAsarOptions_spec_witness:
  "snd (computeAsarOptions True (JStr ''**/*.node'') JUndefined AsarUndefined AsarUndefined None)
     = Inl (DeprecatedOption ''asar-unpack'')
   \<and> snd (computeAsarOptions True JUndefined (JStr ''native'') AsarUndefined AsarUndefined None)
     = Inl (DeprecatedOption ''asar-unpack-dir'')
   \<and> snd (computeAsarOptions True JUndefined JUndefined
            (AsarObject [(''unpack'', JStr ''**/*.node'')]) AsarNull None)
     = Inl (DeprecatedOption ''asar.unpack'')
   \<and> snd (computeAsarOptions True JUndefined JUndefined
            (AsarObject [(''unpackDir'', JStr ''native'')]) AsarUndefined None)
     = Inl (DeprecatedOption ''asar.unpackDir'')
   \<and> snd (computeAsarOptions False JUndefined JUndefined (AsarBool True) AsarUndefined None)
     = Inr None
   \<and> snd (computeAsarOptions True JUndefined JUndefined (AsarBool True) (AsarBool False) None)
     = Inr None
   \<and> snd (computeAsarOptions True JUndefined JUndefined AsarUndefined AsarUndefined None)
     = Inr (Some [])
   \<and> snd (computeAsarOptions True JUndefined JUndefined (AsarBool False) (AsarBool True) None)
     = Inr (Some [])
   \<and> snd (computeAsarOptions True JUndefined JUndefined
            (AsarObject [(''smartUnpack'', JBool False)]) AsarUndefined None)
     = Inr (Some [(''smartUnpack'', JBool False)])"
  using
    computeAsarOptions_spec [of True "JStr ''**/*.node''" JUndefined AsarUndefined AsarUndefined None]
    computeAsarOptions_spec [of True JUndefined "JStr ''native''" AsarUndefined AsarUndefined None]
    computeAsarOptions_spec [of True JUndefined JUndefined
      "AsarObject [(''unpack'', JStr ''**/*.node'')]" AsarNull None]
    computeAsarOptions_spec [of True JUndefined JUndefined
      "AsarObject [(''unpackDir'', JStr ''native'')]" AsarUndefined None]
    computeAsarOptions_spec [of False JUndefined JUndefined "AsarBool True" AsarUndefined None]
    computeAsarOptions_spec [of True JUndefined JUndefined "AsarBool True" "AsarBool False" None]
    computeAsarOptions_spec [of True JUndefined JUndefined AsarUndefined AsarUndefined None]
    computeAsarOptions_spec [of True JUndefined JUndefined "AsarBool False" "AsarBool True" None]
    computeAsarOptions_spec [of True JUndefined JUndefined
      "AsarObject [(''smartUnpack'', JBool False)]" AsarUndefined None]
  by (simp add: getProp_def)

section \<open>Properties of the target schedule\<close>













section \<open>Properties of the copy of the application files\<close>

text \<open>
  C7. When archiving is disabled (\<open>asarOptions\<close> is \<open>null\<close>) and the application is not
  pre-packed, the file sets of the main matchers are copied through the combined
  transformer: for every file it is the result of the transformer for extra files when
  there is one and it does not return \<open>null\<close>, and the result of the main transformer
  otherwise.
\<close>

theorem copyAppFiles_combined:
  "\<not> isPrepackedAppAsar cx \<longrightarrow>
     copyAppFiles pk cx None resourcePath dest excl =
       CopyFileSets
         (installExcludePatterns excl (getMainFileMatchers cx (appDir pk) dest False))
         (combinedTransformer (createTransformerForExtraFiles cx) (createTransformer cx False))
     \<and> (\<forall>file.
          combinedTransformer (createTransformerForExtraFiles cx) (createTransformer cx False) file =
            (case createTransformerForExtraFiles cx of
               None \<Rightarrow> createTransformer cx False file
             | Some extra \<Rightarrow>
                 (case extra file of
                    None \<Rightarrow> createTransformer cx False file
                  | Some content \<Rightarrow> Some content)))"
  by (auto simp: copyAppFiles_def combinedTransformer_def split: option.splits)

text \<open>
  Witness for C7: an executable gets the content of the transformer for extra files,
  \<open>package.json\<close> that of the main transformer, and \<open>index.js\<close> is left as it is;
  without a transformer for extra files the main transformer decides alone.
\<close>

theorem copyAppFiles_combined_witness:
  "\<not> isPrepackedAppAsar plainCopyContext
   \<and> (\<exists>ms t. copyAppFiles linuxPackager plainCopyContext None
                ''/out/linux-unpacked/resources'' ''/out/linux-unpacked/resources/app'' []
              = CopyFileSets ms t
         \<and> t ''app.exe'' = Some ''signed''
         \<and> t ''package.json'' = Some ''{name: foo-app}''
         \<and> t ''index.js'' = None)
   \<and> (\<exists>ms t. copyAppFiles linuxPackager
                (plainCopyContext\<lparr>createTransformerForExtraFiles := None\<rparr>) None
                ''/out/linux-unpacked/resources'' ''/out/linux-unpacked/resources/app'' []
              = CopyFileSets ms t
         \<and> t ''app.exe'' = None
         \<and> t ''package.json'' = Some ''{name: foo-app}'')"
  using
    copyAppFiles_combined [of plainCopyContext linuxPackager
      "''/out/linux-unpacked/resources''" "''/out/linux-unpacked/resources/app''" "[]"]
    copyAppFiles_combined [of "plainCopyContext\<lparr>createTransformerForExtraFiles := None\<rparr>"
      linuxPackager "''/out/linux-unpacked/resources''"
      "''/out/linux-unpacked/resources/app''" "[]"]
  by (simp add: plainCopyContext_def suffix_to_prefix)

section \<open>Properties of the pipeline\<close>

lemma run_completed:
  "run pk a c acts tr0 = (tr, Completed) \<Longrightarrow> tr = tr0 @ acts"
proof (induction acts arbitrary: tr0)
  case Nil
  then show ?case by simp
next
  case (Cons e es)
  from Cons.prems have "run pk a c es (tr0 @ [e]) = (tr, Completed)"
    by (auto split: if_splits option.splits)
  from Cons.IH [OF this] show ?case by simp
qed

lemma run_append:
  "run pk a c (xs @ ys) tr0 =
     (case run pk a c xs tr0 of
        (tr1, Completed) \<Rightarrow> run pk a c ys tr1
      | (tr1, other) \<Rightarrow> (tr1, other))"
proof (induction xs arbitrary: tr0)
  case Nil
  then show ?case by simp
next
  case (Cons e es)
  then show ?case
    by (simp split: option.splits)
qed

lemma run_prefix:
  "run pk a c acts tr0 = (tr, out) \<Longrightarrow> \<exists>done. tr = tr0 @ done \<and> prefix done acts"
proof (induction acts arbitrary: tr0)
  case Nil
  then show ?case by simp
next
  case (Cons e es)
  show ?case
  proof (cases "run pk a c (e # es) tr0 = run pk a c es (tr0 @ [e])")
    case True
    with Cons.prems have "run pk a c es (tr0 @ [e]) = (tr, out)" by simp
    from Cons.IH [OF this] obtain d where "tr = (tr0 @ [e]) @ d" "prefix d es" by blast
    then have "tr = tr0 @ (e # d) \<and> prefix (e # d) (e # es)" by simp
    then show ?thesis by blast
  next
    case False
    then have "tr = tr0 @ [e]"
      using Cons.prems by (auto split: if_splits option.splits)
    then have "tr = tr0 @ [e] \<and> prefix [e] (e # es)" by simp
    then show ?thesis by blast
  qed
qed

lemma run_stops_at_read:
  assumes "run pk a c (xs @ ReadCancelled # ys) tr0 = (tr, out)"
    and "cancelled pk (length tr0 + length xs)"
  shows "(tr = tr0 @ xs @ [ReadCancelled] \<and> out = ReturnedEarly)
         \<or> (\<exists>done. tr = tr0 @ done \<and> prefix done xs \<and> out \<noteq> Completed)"
proof (cases "run pk a c xs tr0")
  case (Pair tr1 o1)
  show ?thesis
  proof (cases "o1 = Completed")
    case True
    with Pair have tr1: "tr1 = tr0 @ xs" by (simp add: run_completed)
    with assms Pair True have "tr = tr0 @ xs @ [ReadCancelled] \<and> out = ReturnedEarly"
      by (simp add: run_append)
    then show ?thesis by simp
  next
    case False
    with assms Pair have eq: "tr = tr1 \<and> out = o1"
      by (cases o1) (simp_all add: run_append)
    from run_prefix [OF Pair] obtain d where "tr1 = tr0 @ d" "prefix d xs" by blast
    with eq False show ?thesis by blast
  qed
qed


lemma prefix_nth: "prefix xs ys \<Longrightarrow> n < length xs \<Longrightarrow> xs ! n = ys ! n"
  by (auto simp: prefix_def nth_append)

lemma nth_after: "length xs \<le> n \<Longrightarrow> n < length (xs @ ys) \<Longrightarrow> (xs @ ys) ! n \<in> set ys"
  by (simp add: nth_append)

lemma doPackActions_failed:
  "asarOptionsOf pk c = Inl err \<Longrightarrow>
   doPackActions pk a c =
     [LogPackaging, PrepareApplicationStageDirectory, ComputeExtraFileMatchers True,
      ComputeExtraFileMatchers False, ComputeAsarOptions]"
  by (simp add: doPackActions_def)

lemma doPackActions_shape:
  "asarOptionsOf pk c = Inr ao \<Longrightarrow>
   doPackActions pk a c =
     ([LogPackaging, PrepareApplicationStageDirectory, ComputeExtraFileMatchers True,
       ComputeExtraFileMatchers False, ComputeAsarOptions,
       CopyAppFiles ao
         (computeParsedPatterns (getExtraFileMatchers pk False a)
            (computeParsedPatterns (getExtraFileMatchers pk True a) [] (projectDir pk))
            (projectDir pk)),
       AwaitTasks, ReadCancelled]
      @ (if beforeCopyExtraFiles pk then [BeforeCopyExtraFiles (ao \<noteq> None)] else [])
      @ [CopyFiles (getExtraFileMatchers pk True a), CopyFiles (getExtraFileMatchers pk False a)])
     @ ReadCancelled
       # [AfterPack, SanityCheckPackage (ao \<noteq> None), SignApp (ao \<noteq> None), AfterSign]"
  by (simp add: doPackActions_def Let_def)





text \<open>
  For an entry file in a subdirectory of an archive made by hand, the archive is found,
  but the path looked up inside it is \<open>.index.js\<close>, where the comment in the source
  announces \<open>dist/index.js\<close>.
\<close>

lemma checkFileInPackage_nested_entry:
  "checkFileInPackage (linuxPackager\<lparr>checkFileInArchive := reportingChecker\<rparr>)
      ''/out/linux-unpacked/resources'' ''a/lib.asar/dist/index.js''
      ''Application entry file'' False
   = Inl (NotInArchive ''/out/linux-unpacked/resources/app/a/lib.asar'' ''.index.js'')"
  by (simp add: checkFileInPackage_def linuxPackager_def reportingChecker_def posixPath_def
      posixNormalize_def partWithAsarIndex_def sublist_code suffix_to_prefix)



text \<open>
  C9. When the caller supplied an already prepared directory (\<open>prepackaged\<close> is not
  \<open>null\<close>), \<open>doPack\<close> returns at once and has done nothing: no stage preparation, no
  matcher computation, no copy, no hook, no sanity check, no signing.
\<close>

theorem doPack_prepackaged:
  "prepackaged pk \<noteq> None \<Longrightarrow> doPack pk appOutDir customAsar = ([], ReturnedEarly)"
  by (simp add: doPack_def)

text \<open>Witness for C9: the Linux packager with a prepackaged directory.\<close>

theorem doPack_prepackaged_witness:
  "prepackaged (linuxPackager\<lparr>prepackaged := Some ''/prebuilt/linux-unpacked''\<rparr>) \<noteq> None
   \<and> doPack (linuxPackager\<lparr>prepackaged := Some ''/prebuilt/linux-unpacked''\<rparr>)
        ''/prebuilt/linux-unpacked'' AsarUndefined = ([], ReturnedEarly)"
  using doPack_prepackaged [of "linuxPackager\<lparr>prepackaged := Some ''/prebuilt/linux-unpacked''\<rparr>"
      "''/prebuilt/linux-unpacked''" AsarUndefined]
  by simp

text \<open>
  C1 as stated fails. The claim lets the token be set at any moment between the end of the
  main copy and the sanity check. Here it is set while the after-pack hook (action 12) is
  in progress: that is after the main copy (action 6) and before the sanity check (action
  13), no read of the token follows, and the sanity check, the signing and the after-sign
  hook all run.
\<close>

theorem doPack_cancelled_during_afterPack_counterexample:
  "doPack (linuxPackager\<lparr>cancelAt := Some 12\<rparr>) ''/out/linux-unpacked'' AsarUndefined =
     ([LogPackaging, PrepareApplicationStageDirectory,
       ComputeExtraFileMatchers True, ComputeExtraFileMatchers False,
       ComputeAsarOptions, CopyAppFiles None [], AwaitTasks, ReadCancelled,
       BeforeCopyExtraFiles False, CopyFiles None, CopyFiles None,
       ReadCancelled, AfterPack, SanityCheckPackage False, SignApp False,
       AfterSign],
      Completed)"
  by (simp add: doPack_def doPackActions_def linuxPackager_def asarOptionsOf_def
      computeAsarOptions_def getExtraFileMatchers_def perform_def cancelled_def
      sanityCheckPackage_def checkFileInPackage_def entryFile_def getResourcesDir_def
      posixPath_def posixNormalize_def unpackedDisk_def appAsarStat_def fooApp_def
      sublist_code)

text \<open>
  C1, amended. The actions of a run of \<open>doPack\<close> are an initial part of the sequence
  below, in which the token is read at exactly two places: right after the main copy has
  been awaited and right after the copy of the extra files. If the token is set no later
  than during an action that comes before one of these reads (awaiting the main copy, the
  hook before the extra files, a copy of extra files), the run does not complete: it
  returns at a read of the token, unless an action threw before, and it performs no
  after-pack hook, no sanity check, no signing and no after-sign hook.
\<close>

theorem doPack_cancellation:
  assumes "doPack pk appOutDir customAsar = (tr, out)"
  shows "(\<exists>ao excl.
            prefix tr
              ([LogPackaging, PrepareApplicationStageDirectory, ComputeExtraFileMatchers True,
                ComputeExtraFileMatchers False, ComputeAsarOptions, CopyAppFiles ao excl,
                AwaitTasks, ReadCancelled]
               @ (if beforeCopyExtraFiles pk then [BeforeCopyExtraFiles (ao \<noteq> None)] else [])
               @ [CopyFiles (getExtraFileMatchers pk True appOutDir),
                  CopyFiles (getExtraFileMatchers pk False appOutDir),
                  ReadCancelled,
                  AfterPack, SanityCheckPackage (ao \<noteq> None), SignApp (ao \<noteq> None),
                  AfterSign]))
         \<and> (\<forall>k n. cancelAt pk = Some k \<and> n < length tr \<and> k \<le> n
                  \<and> (tr ! n = AwaitTasks \<or> (\<exists>b. tr ! n = BeforeCopyExtraFiles b)
                       \<or> (\<exists>ms. tr ! n = CopyFiles ms))
               \<longrightarrow> (out = ReturnedEarly \<or> (\<exists>e. out = Threw e))
                   \<and> AfterPack \<notin> set tr \<and> AfterSign \<notin> set tr
                   \<and> (\<forall>b. SanityCheckPackage b \<notin> set tr \<and> SignApp b \<notin> set tr))"
proof (cases "prepackaged pk = None")
  case False
  with assms have "tr = []" by (simp add: doPack_def)
  then show ?thesis by simp
next
  case True
  with assms have run: "run pk appOutDir customAsar (doPackActions pk appOutDir customAsar) [] = (tr, out)"
    by (simp add: doPack_def)
  from run_prefix [OF run] have pre: "prefix tr (doPackActions pk appOutDir customAsar)"
    by simp
  show ?thesis
  proof (cases "asarOptionsOf pk customAsar")
    case (Inl err)
    note acts = doPackActions_failed [OF Inl, of appOutDir]
    have A: "prefix tr
              ([LogPackaging, PrepareApplicationStageDirectory, ComputeExtraFileMatchers True,
                ComputeExtraFileMatchers False, ComputeAsarOptions, CopyAppFiles None [],
                AwaitTasks, ReadCancelled]
               @ (if beforeCopyExtraFiles pk then [BeforeCopyExtraFiles (None \<noteq> (None::AsarOptions option))] else [])
               @ [CopyFiles (getExtraFileMatchers pk True appOutDir),
                  CopyFiles (getExtraFileMatchers pk False appOutDir),
                  ReadCancelled,
                  AfterPack, SanityCheckPackage (None \<noteq> (None::AsarOptions option)), SignApp (None \<noteq> (None::AsarOptions option)),
                  AfterSign])"
      using pre unfolding acts
      by (rule prefix_order.trans) simp
    have B: "\<not> (tr ! n = AwaitTasks \<or> (\<exists>b. tr ! n = BeforeCopyExtraFiles b)
                       \<or> (\<exists>ms. tr ! n = CopyFiles ms))" if "n < length tr" for n
    proof -
      from pre that have "tr ! n \<in> set (doPackActions pk appOutDir customAsar)"
        using set_mono_prefix nth_mem by blast
      then show ?thesis unfolding acts by auto
    qed
    from A B show ?thesis by blast
  next
    case (Inr ao)
    let ?excl = "computeParsedPatterns (getExtraFileMatchers pk False appOutDir)
            (computeParsedPatterns (getExtraFileMatchers pk True appOutDir) [] (projectDir pk))
            (projectDir pk)"
    let ?A = "[LogPackaging, PrepareApplicationStageDirectory, ComputeExtraFileMatchers True,
       ComputeExtraFileMatchers False, ComputeAsarOptions,
       CopyAppFiles ao ?excl, AwaitTasks, ReadCancelled]
      @ (if beforeCopyExtraFiles pk then [BeforeCopyExtraFiles (ao \<noteq> None)] else [])
      @ [CopyFiles (getExtraFileMatchers pk True appOutDir), CopyFiles (getExtraFileMatchers pk False appOutDir)]"
    let ?post = "[AfterPack, SanityCheckPackage (ao \<noteq> None), SignApp (ao \<noteq> None), AfterSign]"
    have acts: "doPackActions pk appOutDir customAsar = ?A @ ReadCancelled # ?post"
      by (rule doPackActions_shape [OF Inr])
    have A: "prefix tr
              ([LogPackaging, PrepareApplicationStageDirectory, ComputeExtraFileMatchers True,
                ComputeExtraFileMatchers False, ComputeAsarOptions, CopyAppFiles ao ?excl,
                AwaitTasks, ReadCancelled]
               @ (if beforeCopyExtraFiles pk then [BeforeCopyExtraFiles (ao \<noteq> None)] else [])
               @ [CopyFiles (getExtraFileMatchers pk True appOutDir),
                  CopyFiles (getExtraFileMatchers pk False appOutDir),
                  ReadCancelled,
                  AfterPack, SanityCheckPackage (ao \<noteq> None), SignApp (ao \<noteq> None),
                  AfterSign])"
      using pre unfolding acts by simp
    have B: "(out = ReturnedEarly \<or> (\<exists>e. out = Threw e))
                   \<and> AfterPack \<notin> set tr \<and> AfterSign \<notin> set tr
                   \<and> (\<forall>b. SanityCheckPackage b \<notin> set tr \<and> SignApp b \<notin> set tr)"
      if k: "cancelAt pk = Some k" and n: "n < length tr" and kn: "k \<le> n"
        and P: "tr ! n = AwaitTasks \<or> (\<exists>b. tr ! n = BeforeCopyExtraFiles b)
                       \<or> (\<exists>ms. tr ! n = CopyFiles ms)" for k n
    proof -
      have nth: "tr ! n = (?A @ ReadCancelled # ?post) ! n"
        using prefix_nth [OF pre n] acts by simp
      have nlen: "n < length (?A @ ReadCancelled # ?post)"
        using pre n acts prefix_length_le by fastforce
      have "n < length ?A"
      proof (rule ccontr)
        assume "\<not> n < length ?A"
        then have "length ?A \<le> n" by simp
        from nth_after [OF this nlen] nth have "tr ! n \<in> set (ReadCancelled # ?post)"
          by simp
        with P show False by auto
      qed
      with kn have "k < length ?A" by simp
      with k have c: "cancelled pk (length ([]::event list) + length ?A)"
        by (simp add: cancelled_def)
      from run acts have "run pk appOutDir customAsar (?A @ ReadCancelled # ?post) [] = (tr, out)"
        by simp
      from run_stops_at_read [OF this c]
      have stop: "prefix tr (?A @ [ReadCancelled])" and nc: "out \<noteq> Completed"
        by (auto intro: prefix_order.trans)
      from set_mono_prefix [OF stop] have "set tr \<subseteq> set (?A @ [ReadCancelled])" .
      then have "AfterPack \<notin> set tr \<and> AfterSign \<notin> set tr
                   \<and> (\<forall>b. SanityCheckPackage b \<notin> set tr \<and> SignApp b \<notin> set tr)"
        by auto
      moreover from nc have "out = ReturnedEarly \<or> (\<exists>e. out = Threw e)"
        by (cases out) simp_all
      ultimately show ?thesis by simp
    qed
    from A B show ?thesis by blast
  qed
qed


text \<open>
  Witness for the amended C1: the token is set while the extra resources are copied
  (action 9); the run returns at the second read.
\<close>

theorem doPack_cancellation_witness:
  "doPack (linuxPackager\<lparr>cancelAt := Some 9\<rparr>) ''/out/linux-unpacked'' AsarUndefined =
     ([LogPackaging, PrepareApplicationStageDirectory,
       ComputeExtraFileMatchers True, ComputeExtraFileMatchers False,
       ComputeAsarOptions, CopyAppFiles None [], AwaitTasks, ReadCancelled,
       BeforeCopyExtraFiles False, CopyFiles None, CopyFiles None,
       ReadCancelled],
      ReturnedEarly)
   \<and> AfterPack \<notin> set (fst (doPack (linuxPackager\<lparr>cancelAt := Some 9\<rparr>)
                               ''/out/linux-unpacked'' AsarUndefined))
   \<and> SanityCheckPackage False \<notin> set (fst (doPack (linuxPackager\<lparr>cancelAt := Some 9\<rparr>)
                               ''/out/linux-unpacked'' AsarUndefined))
   \<and> SignApp False \<notin> set (fst (doPack (linuxPackager\<lparr>cancelAt := Some 9\<rparr>)
                               ''/out/linux-unpacked'' AsarUndefined))"
proof -
  let ?tr = "[LogPackaging, PrepareApplicationStageDirectory,
       ComputeExtraFileMatchers True, ComputeExtraFileMatchers False,
       ComputeAsarOptions, CopyAppFiles None [], AwaitTasks, ReadCancelled,
       BeforeCopyExtraFiles False, CopyFiles None, CopyFiles None,
       ReadCancelled]"
  have ev: "doPack (linuxPackager\<lparr>cancelAt := Some 9\<rparr>) ''/out/linux-unpacked'' AsarUndefined
              = (?tr, ReturnedEarly)"
    by (simp add: doPack_def doPackActions_def linuxPackager_def asarOptionsOf_def
        computeAsarOptions_def getExtraFileMatchers_def perform_def cancelled_def
        appAsarStat_def posixPath_def posixNormalize_def unpackedDisk_def)
  have tok: "cancelAt (linuxPackager\<lparr>cancelAt := Some 9\<rparr>) = Some 9"
    by simp
  have at: "(9::nat) < length ?tr \<and> (9::nat) \<le> 9 \<and> (\<exists>ms. ?tr ! 9 = CopyFiles ms)"
    by simp
  from doPack_cancellation [OF ev] tok at
  have "AfterPack \<notin> set ?tr \<and> (\<forall>b. SanityCheckPackage b \<notin> set ?tr \<and> SignApp b \<notin> set ?tr)"
    by blast
  with ev show ?thesis by simp
qed




section \<open>Properties of the exclusion patterns\<close>












end
